theory Spec2Isabelle
  imports Complex_Main
begin

text \<open>
  A model of the presence relay: the service that takes playback samples
  (\<open>Services/netflix.js\<close>) and the client module that keeps the connection to Discord and
  renders the activity (\<open>RPC/client.js\<close>). Module variables are records that each
  function takes and returns; the clock, the random suffix of a session id and the results
  of the calls on the Discord client are parameters.
\<close>

section \<open>JavaScript values\<close>

text \<open>
  A JavaScript number is a double. The model keeps the finite values as exact rationals
  (rounding is not modelled) and keeps \<open>Infinity\<close>, \<open>-Infinity\<close> and \<open>NaN\<close> as values
  of their own: both \<open>validate\<close> functions of the source let them through, and
  \<open>set_activity\<close> asks \<open>Number.isFinite\<close>. Negative zero is not distinguished from zero.
\<close>

datatype jsnum = Fin rat | PInf | NInf | NaN

fun jlt :: "jsnum \<Rightarrow> jsnum \<Rightarrow> bool" where
  "jlt (Fin a) (Fin b) = (a < b)"
| "jlt NaN _ = False"
| "jlt _ NaN = False"
| "jlt NInf NInf = False"
| "jlt NInf _ = True"
| "jlt _ NInf = False"
| "jlt PInf _ = False"
| "jlt _ PInf = True"

definition jgt :: "jsnum \<Rightarrow> jsnum \<Rightarrow> bool" where
  "jgt a b = jlt b a"

definition jle :: "jsnum \<Rightarrow> jsnum \<Rightarrow> bool" where
  "jle a b = (a \<noteq> NaN \<and> b \<noteq> NaN \<and> \<not> jlt b a)"

fun jneg :: "jsnum \<Rightarrow> jsnum" where
  "jneg (Fin a) = Fin (- a)"
| "jneg PInf = NInf"
| "jneg NInf = PInf"
| "jneg NaN = NaN"

fun jadd :: "jsnum \<Rightarrow> jsnum \<Rightarrow> jsnum" where
  "jadd (Fin a) (Fin b) = Fin (a + b)"
| "jadd NaN _ = NaN"
| "jadd _ NaN = NaN"
| "jadd PInf NInf = NaN"
| "jadd NInf PInf = NaN"
| "jadd PInf _ = PInf"
| "jadd NInf _ = NInf"
| "jadd _ PInf = PInf"
| "jadd _ NInf = NInf"

definition jsub :: "jsnum \<Rightarrow> jsnum \<Rightarrow> jsnum" where
  "jsub a b = jadd a (jneg b)"

fun jabs :: "jsnum \<Rightarrow> jsnum" where
  "jabs (Fin a) = Fin \<bar>a\<bar>"
| "jabs PInf = PInf"
| "jabs NInf = PInf"
| "jabs NaN = NaN"

fun jfloor :: "jsnum \<Rightarrow> jsnum" where
  "jfloor (Fin a) = Fin (of_int \<lfloor>a\<rfloor>)"
| "jfloor x = x"

definition jmax :: "jsnum \<Rightarrow> jsnum \<Rightarrow> jsnum" where
  "jmax a b = (if a = NaN \<or> b = NaN then NaN else if jlt a b then b else a)"

definition jmin :: "jsnum \<Rightarrow> jsnum \<Rightarrow> jsnum" where
  "jmin a b = (if a = NaN \<or> b = NaN then NaN else if jlt b a then b else a)"

fun jmul :: "jsnum \<Rightarrow> jsnum \<Rightarrow> jsnum" where
  "jmul (Fin a) (Fin b) = Fin (a * b)"
| "jmul NaN _ = NaN"
| "jmul _ NaN = NaN"
| "jmul (Fin a) PInf = (if a = 0 then NaN else if 0 < a then PInf else NInf)"
| "jmul (Fin a) NInf = (if a = 0 then NaN else if 0 < a then NInf else PInf)"
| "jmul PInf (Fin b) = (if b = 0 then NaN else if 0 < b then PInf else NInf)"
| "jmul NInf (Fin b) = (if b = 0 then NaN else if 0 < b then NInf else PInf)"
| "jmul PInf PInf = PInf"
| "jmul NInf NInf = PInf"
| "jmul PInf NInf = NInf"
| "jmul NInf PInf = NInf"

fun jdiv :: "jsnum \<Rightarrow> jsnum \<Rightarrow> jsnum" where
  "jdiv (Fin a) (Fin b) =
     (if b = 0 then (if a = 0 then NaN else if 0 < a then PInf else NInf) else Fin (a / b))"
| "jdiv NaN _ = NaN"
| "jdiv _ NaN = NaN"
| "jdiv (Fin a) _ = Fin 0"
| "jdiv PInf (Fin b) = (if 0 \<le> b then PInf else NInf)"
| "jdiv NInf (Fin b) = (if 0 \<le> b then NInf else PInf)"
| "jdiv _ _ = NaN"

fun isFinite :: "jsnum \<Rightarrow> bool" where
  "isFinite (Fin a) = True"
| "isFinite _ = False"

text \<open>
  A raw sample arrives as a parsed request body: any JavaScript value. An object is an
  association list of its properties, the first binding of a name being the one that
  counts; reading a property that is absent gives \<open>undefined\<close>.
\<close>

datatype jsval =
    Undefined
  | Null
  | Boolean bool
  | Number jsnum
  | String string
  | Object "(string \<times> jsval) list"

datatype jstype = TUndefined | TObject | TBoolean | TNumber | TString

fun typeof :: "jsval \<Rightarrow> jstype" where
  "typeof Undefined = TUndefined"
| "typeof Null = TObject"
| "typeof (Boolean b) = TBoolean"
| "typeof (Number n) = TNumber"
| "typeof (String s) = TString"
| "typeof (Object fs) = TObject"

fun truthy :: "jsval \<Rightarrow> bool" where
  "truthy Undefined = False"
| "truthy Null = False"
| "truthy (Boolean b) = b"
| "truthy (Number n) = (n \<noteq> NaN \<and> n \<noteq> Fin 0)"
| "truthy (String s) = (s \<noteq> [])"
| "truthy (Object fs) = True"

fun property :: "jsval \<Rightarrow> string \<Rightarrow> jsval" where
  "property (Object fs) k = (case map_of fs k of Some v \<Rightarrow> v | None \<Rightarrow> Undefined)"
| "property _ k = Undefined"

fun the_string :: "jsval \<Rightarrow> string" where
  "the_string (String s) = s"
| "the_string _ = []"

fun the_number :: "jsval \<Rightarrow> jsnum" where
  "the_number (Number n) = n"
| "the_number _ = NaN"

section \<open>Regular expressions of the title grammar\<close>

text \<open>
  The three patterns of \<open>parse_title\<close> are sequences of one character class under a
  quantifier, some of them captured. A pattern is matched as the ECMAScript matcher does
  it: each piece tries its run lengths in its order of preference (greedy: longest first,
  lazy: shortest first) and the first assignment under which the rest matches wins;
  \<open>String.prototype.match\<close> tries the start positions from left to right.
  Strings are lists of 8-bit code units.
\<close>

datatype cclass = AnyChar | Space | Digit | Lit char

datatype quant = One | Opt | Star | Plus | LazyPlus

datatype piece = Piece cclass quant bool

definition canonicalize :: "char \<Rightarrow> char" where
  "canonicalize c =
     (case map_of (zip ''abcdefghijklmnopqrstuvwxyz'' ''ABCDEFGHIJKLMNOPQRSTUVWXYZ'') c of
        Some u \<Rightarrow> u | None \<Rightarrow> c)"

definition line_terminator :: "char \<Rightarrow> bool" where
  "line_terminator c = (c \<in> set [CHR 0x0A, CHR 0x0D])"

definition white_space :: "char \<Rightarrow> bool" where
  "white_space c = (c \<in> set [CHR 0x09, CHR 0x0A, CHR 0x0B, CHR 0x0C, CHR 0x0D, CHR 0x20, CHR 0xA0])"

definition digit :: "char \<Rightarrow> bool" where
  "digit c = (c \<in> set ''0123456789'')"

text \<open>All three patterns carry the flag \<open>i\<close>: a literal is compared after canonicalization.\<close>

fun accepts :: "cclass \<Rightarrow> char \<Rightarrow> bool" where
  "accepts AnyChar c = (\<not> line_terminator c)"
| "accepts Space c = white_space c"
| "accepts Digit c = digit c"
| "accepts (Lit l) c = (canonicalize c = canonicalize l)"

definition run :: "cclass \<Rightarrow> string \<Rightarrow> nat" where
  "run cc s = length (takeWhile (accepts cc) s)"

fun lengths :: "quant \<Rightarrow> nat \<Rightarrow> nat list" where
  "lengths One m = (if 1 \<le> m then [1] else [])"
| "lengths Opt m = (if 1 \<le> m then [1, 0] else [0])"
| "lengths Star m = rev [0..<Suc m]"
| "lengths Plus m = rev [1..<Suc m]"
| "lengths LazyPlus m = [1..<Suc m]"

fun match_here :: "piece list \<Rightarrow> string \<Rightarrow> string list option"
  and try_lengths :: "bool \<Rightarrow> piece list \<Rightarrow> string \<Rightarrow> nat list \<Rightarrow> string list option" where
  "match_here [] s = Some []"
| "match_here (Piece cc q captured # ps) s = try_lengths captured ps s (lengths q (run cc s))"
| "try_lengths captured ps s [] = None"
| "try_lengths captured ps s (n # ns) =
     (case match_here ps (drop n s) of
        Some caps \<Rightarrow> Some (if captured then take n s # caps else caps)
      | None \<Rightarrow> try_lengths captured ps s ns)"

fun match :: "piece list \<Rightarrow> string \<Rightarrow> string list option" where
  "match ps [] = match_here ps []"
| "match ps (c # s) =
     (case match_here ps (c # s) of Some caps \<Rightarrow> Some caps | None \<Rightarrow> match ps s)"

definition trim :: "string \<Rightarrow> string" where
  "trim s = rev (dropWhile white_space (rev (dropWhile white_space s)))"

section \<open>The presence connection (RPC client module)\<close>

text \<open>
  The data passed to the client module has a title, a position, a duration and a playing
  flag. The normalized sample of the service and the activity cached by the client are
  extensions of it. Where two objects of the source have a field of the same name, the
  model's field carries a prefix: \<open>cached_at\<close> is \<open>_lastUpdate\<close> of the cached activity.
\<close>

record media =
  title :: string
  current :: jsnum
  duration :: jsnum
  playing :: bool

record activity = media +
  cached_at :: int

text \<open>
  The payload given to the Discord client. An absent field is \<open>None\<close>; \<open>activity_type\<close>
  and \<open>is_instance\<close> are its fields \<open>type\<close> and \<open>instance\<close>.
\<close>

record payload =
  details :: string
  state :: "string option"
  largeImageKey :: string
  largeImageText :: string
  activity_type :: nat
  is_instance :: bool
  startTimestamp :: "int option"
  endTimestamp :: "int option"

text \<open>
  The Discord client is outside the repository. The model records the calls made on it
  (\<open>sink\<close>), takes the result of each awaited call as a parameter (\<open>None\<close>: the promise
  resolves, \<open>Some msg\<close>: it rejects with that message), and runs each asynchronous function
  as one step. \<open>timers\<close> holds the due times of the reconnect timeouts that are pending,
  \<open>calls\<close> the entry points of the module that have been called by the service.
  Of the module variable \<open>state\<close>, \<open>client_id\<close> is \<open>id\<close>, \<open>rpc_timestamp\<close> is
  \<open>timestamp\<close> and \<open>ticker\<close> is \<open>_ticker\<close>: the time since which the re-render interval
  runs, if it does. The callback of the interval is not part of the model.
\<close>

datatype client = IpcClient

datatype sink_call = Login "string option" | SetActivity payload | ClearActivity | Destroy

datatype api_call = CallUpdate | CallClear | CallPause | CallResume

record rpc_state =
  client :: "client option"
  connected :: bool
  ready :: bool
  activity :: "activity option"
  rpc_timestamp :: "int option"
  attempts :: nat
  client_id :: "string option"
  ticker :: "int option"
  sink :: "sink_call list"
  timers :: "int list"
  calls :: "api_call list"

definition rpc_retry :: int where
  "rpc_retry = 5000"

definition rpc_reconnect :: nat where
  "rpc_reconnect = 3"

definition rpc_initial :: rpc_state where
  "rpc_initial = \<lparr>client = None, connected = False, ready = False, activity = None,
     rpc_timestamp = None, attempts = 0, client_id = None, ticker = None,
     sink = [], timers = [], calls = []\<rparr>"

definition disconnect :: "rpc_state \<Rightarrow> rpc_state" where
  "disconnect rs =
     (if client rs = None then rs
      else rs\<lparr>sink := sink rs @ [Destroy], connected := False, ready := False\<rparr>)"

definition destroy :: "rpc_state \<Rightarrow> rpc_state" where
  "destroy rs =
     (disconnect rs)\<lparr>ticker := None, client := None, activity := None,
        rpc_timestamp := None, attempts := 0, client_id := None\<rparr>"

definition create :: "string option \<Rightarrow> rpc_state \<Rightarrow> rpc_state" where
  "create i rs =
     (let rs1 = (if client rs \<noteq> None then destroy rs else rs)
      in rs1\<lparr>client := Some IpcClient, client_id := i\<rparr>)"

definition schedule_reconnect :: "int \<Rightarrow> rpc_state \<Rightarrow> rpc_state" where
  "schedule_reconnect now rs =
     (if attempts rs < rpc_reconnect then rs\<lparr>timers := timers rs @ [now + rpc_retry]\<rparr> else rs)"

definition handle_disconnect :: "int \<Rightarrow> rpc_state \<Rightarrow> rpc_state" where
  "handle_disconnect now rs = schedule_reconnect now (rs\<lparr>connected := False, ready := False\<rparr>)"

definition handle_error :: "rpc_state \<Rightarrow> rpc_state" where
  "handle_error rs = rs\<lparr>connected := False, ready := False\<rparr>"

text \<open>\<open>login\<close> is the result of \<open>client.login\<close>, \<open>now\<close> the time at which it is known.\<close>

definition connect :: "string option \<Rightarrow> string option \<Rightarrow> int \<Rightarrow> rpc_state \<Rightarrow> bool \<times> rpc_state" where
  "connect i login now rs =
     (if connected rs then (True, rs)
      else
        let rs1 = create i rs;
            rs2 = rs1\<lparr>sink := sink rs1 @ [Login i]\<rparr>
        in case login of
             None \<Rightarrow> (True, rs2)
           | Some err \<Rightarrow> (False, schedule_reconnect now (rs2\<lparr>attempts := attempts rs2 + 1\<rparr>)))"

definition reconnect :: "string option \<Rightarrow> int \<Rightarrow> rpc_state \<Rightarrow> bool \<times> rpc_state" where
  "reconnect login now rs =
     (if connected rs then (True, rs) else connect (client_id rs) login now rs)"

text \<open>A reconnect timeout that is due fires: it leaves the pending ones and calls \<open>reconnect\<close>.\<close>

definition reconnect_fire :: "int \<Rightarrow> string option \<Rightarrow> int \<Rightarrow> rpc_state \<Rightarrow> (bool \<times> rpc_state) option" where
  "reconnect_fire due login now rs =
     (if due \<in> set (timers rs) \<and> due \<le> now
      then Some (reconnect login now (rs\<lparr>timers := remove1 due (timers rs)\<rparr>))
      else None)"

subsection \<open>Rendering\<close>

datatype title_format = Disk | Season

record parsed =
  series :: string
  season :: "string option"
  episode :: string
  name :: "string option"
  format :: title_format

definition disk_pattern :: "piece list" where
  "disk_pattern =
     [Piece AnyChar LazyPlus True, Piece (Lit CHR '':'') One False, Piece Space Star False,
      Piece (Lit CHR ''D'') One False, Piece Digit Plus True, Piece Space Plus False,
      Piece AnyChar Plus True]"

definition season_pattern :: "piece list" where
  "season_pattern =
     [Piece AnyChar LazyPlus True, Piece (Lit CHR '':'') One False, Piece Space Star False,
      Piece (Lit CHR ''S'') One False, Piece Digit Plus True, Piece Space Star False,
      Piece (Lit CHR ''E'') One False, Piece Digit Plus True, Piece Space Star False,
      Piece (Lit CHR ''-'') Opt False, Piece Space Star False, Piece AnyChar Plus True]"

definition season_only_pattern :: "piece list" where
  "season_only_pattern =
     [Piece AnyChar LazyPlus True, Piece (Lit CHR '':'') One False, Piece Space Star False,
      Piece (Lit CHR ''S'') One False, Piece Digit Plus True, Piece Space Star False,
      Piece (Lit CHR ''E'') One False, Piece Digit Plus True]"

definition parse_title :: "string \<Rightarrow> parsed option" where
  "parse_title t =
     (case match disk_pattern t of
        Some [m1, m2, m3] \<Rightarrow>
          Some \<lparr>series = trim m1, season = None, episode = m2, name = Some (trim m3), format = Disk\<rparr>
      | _ \<Rightarrow>
     (case match season_pattern t of
        Some [m1, m2, m3, m4] \<Rightarrow>
          Some \<lparr>series = trim m1, season = Some m2, episode = m3, name = Some (trim m4), format = Season\<rparr>
      | _ \<Rightarrow>
     (case match season_only_pattern t of
        Some [m1, m2, m3] \<Rightarrow>
          Some \<lparr>series = trim m1, season = Some m2, episode = m3, name = None, format = Season\<rparr>
      | _ \<Rightarrow> None)))"

definition plain_activity :: "string \<Rightarrow> string option \<Rightarrow> payload" where
  "plain_activity d s =
     \<lparr>details = d, state = s, largeImageKey = ''netflix_logo'', largeImageText = ''Netflix'',
      activity_type = 3, is_instance = False, startTimestamp = None, endTimestamp = None\<rparr>"

definition opt_string :: "string option \<Rightarrow> string" where
  "opt_string s = (case s of Some x \<Rightarrow> x | None \<Rightarrow> ''undefined'')"

definition format_activity :: "'a media_scheme \<Rightarrow> payload" where
  "format_activity d =
     (case parse_title (title d) of
        None \<Rightarrow> plain_activity (title d) None
      | Some p \<Rightarrow>
          (case format p of
             Season \<Rightarrow>
               plain_activity (series p)
                 (Some (if name p \<noteq> None \<and> name p \<noteq> Some []
                        then ''S'' @ opt_string (season p) @ ''E'' @ episode p @ '' - '' @ opt_string (name p)
                        else ''S'' @ opt_string (season p) @ ''E'' @ episode p))
           | Disk \<Rightarrow>
               plain_activity (series p)
                 (Some ([CHR ''D'', CHR 0xED, CHR ''l'', CHR '' ''] @ episode p @ '' - '' @ opt_string (name p)))))"

text \<open>
  \<open>validate_data\<close>: the \<open>typeof\<close> tests of the source hold by the types of the record; what
  is left is the non-empty title and the two comparisons, which \<open>NaN\<close> passes.
\<close>

definition validate_data :: "'a media_scheme \<Rightarrow> bool" where
  "validate_data d =
     (if title d = [] then False
      else if jlt (current d) (Fin 0) then False
      else if jle (duration d) (Fin 0) then False
      else True)"

definition seconds :: "jsnum \<Rightarrow> int" where
  "seconds x = (case x of Fin a \<Rightarrow> \<lfloor>a\<rfloor> | _ \<Rightarrow> 0)"

definition render :: "'a media_scheme \<Rightarrow> int \<Rightarrow> payload" where
  "render d now =
     (let act = format_activity d;
          nowSec = now div 1000;
          currentSec = seconds (current d);
          durationSec = seconds (duration d);
          start = nowSec - currentSec;
          end = start + durationSec
      in if 0 < durationSec \<and> playing d
         then act\<lparr>startTimestamp := Some start, endTimestamp := Some end\<rparr>
         else act)"

text \<open>
  The body of the \<open>try\<close> of \<open>set_activity\<close>: \<open>Inl\<close> is the exception thrown out of it (the
  rejection of \<open>client.setActivity\<close>), with the state at that point. \<open>now\<close> is the clock
  before the call of the client, \<open>later\<close> the clock after it.
\<close>

definition set_activity_try ::
    "'a media_scheme \<Rightarrow> int \<Rightarrow> int \<Rightarrow> string option \<Rightarrow> rpc_state \<Rightarrow> (string \<times> rpc_state) + (bool \<times> rpc_state)" where
  "set_activity_try d now later sent rs =
     (let rs1 = rs\<lparr>sink := sink rs @ [SetActivity (render d now)]\<rparr>;
          durationSec = seconds (duration d)
      in case sent of
           Some err \<Rightarrow> Inl (err, rs1)
         | None \<Rightarrow>
             Inr (True,
               rs1\<lparr>activity := Some \<lparr>title = title d, current = Fin (of_int (seconds (current d))),
                                     duration = Fin (of_int durationSec), playing = playing d,
                                     cached_at = later\<rparr>,
                    rpc_timestamp := Some later,
                    ticker := (if 0 < durationSec \<and> playing d then Some later else None)\<rparr>))"

text \<open>The result of an asynchronous function: \<open>Inl\<close> when its promise rejects.\<close>

definition set_activity ::
    "'a media_scheme \<Rightarrow> int \<Rightarrow> int \<Rightarrow> string option \<Rightarrow> rpc_state \<Rightarrow> (string + bool) \<times> rpc_state" where
  "set_activity d now later sent rs =
     (if \<not> validate_data d then (Inr False, rs)
      else if client rs = None \<or> \<not> ready rs then
        (Inr False,
         rs\<lparr>activity := Some \<lparr>title = title d, current = current d, duration = duration d,
                              playing = playing d, cached_at = now\<rparr>,
            rpc_timestamp := Some now\<rparr>)
      else
        (case set_activity_try d now later sent rs of
           Inr (b, rs') \<Rightarrow> (Inr b, rs')
         | Inl (err, rs') \<Rightarrow> (Inr False, rs')))"

definition clear_activity :: "string option \<Rightarrow> rpc_state \<Rightarrow> (string + bool) \<times> rpc_state" where
  "clear_activity cleared rs0 =
     (let rs = rs0\<lparr>calls := calls rs0 @ [CallClear]\<rparr>
      in if client rs = None \<or> \<not> ready rs then (Inr False, rs)
         else
           let rs1 = rs\<lparr>sink := sink rs @ [ClearActivity]\<rparr>
           in case cleared of
                Some err \<Rightarrow> (Inr False, rs1)
              | None \<Rightarrow> (Inr True, rs1\<lparr>ticker := None, activity := None, rpc_timestamp := None\<rparr>))"

definition is_connected :: "rpc_state \<Rightarrow> bool" where
  "is_connected rs = (connected rs \<and> ready rs)"

definition update ::
    "'a media_scheme \<Rightarrow> int \<Rightarrow> int \<Rightarrow> string option \<Rightarrow> rpc_state \<Rightarrow> (string + bool) \<times> rpc_state" where
  "update d now later sent rs0 =
     (let rs = rs0\<lparr>calls := calls rs0 @ [CallUpdate]\<rparr>
      in if \<not> validate_data d then (Inr False, rs)
         else if \<not> is_connected rs then (Inr False, rs)
         else set_activity d now later sent rs)"

definition rpc_pause :: "int \<Rightarrow> int \<Rightarrow> string option \<Rightarrow> rpc_state \<Rightarrow> (string + bool) \<times> rpc_state" where
  "rpc_pause now later sent rs0 =
     (let rs = rs0\<lparr>calls := calls rs0 @ [CallPause]\<rparr>
      in case activity rs of
           None \<Rightarrow> (Inr False, rs)
         | Some a \<Rightarrow>
             set_activity \<lparr>title = title a, current = current a, duration = duration a, playing = False\<rparr>
               now later sent rs)"

definition rpc_resume :: "int \<Rightarrow> int \<Rightarrow> string option \<Rightarrow> rpc_state \<Rightarrow> (string + bool) \<times> rpc_state" where
  "rpc_resume now later sent rs0 =
     (let rs = rs0\<lparr>calls := calls rs0 @ [CallResume]\<rparr>
      in case activity rs of
           None \<Rightarrow> (Inr False, rs)
         | Some a \<Rightarrow>
             set_activity \<lparr>title = title a, current = current a, duration = duration a, playing = True\<rparr>
               now later sent rs)"

text \<open>
  \<open>handle_ready\<close> restores the cached activity; the promise of that \<open>set_activity\<close> is
  dropped (\<open>.catch\<close> with an empty handler).
\<close>

definition handle_ready :: "int \<Rightarrow> int \<Rightarrow> string option \<Rightarrow> rpc_state \<Rightarrow> rpc_state" where
  "handle_ready now later sent rs =
     (let rs1 = rs\<lparr>connected := True, ready := True, attempts := 0\<rparr>
      in case activity rs1 of
           None \<Rightarrow> rs1
         | Some a \<Rightarrow> snd (set_activity a now later sent rs1))"

section \<open>The service (Services/netflix.js)\<close>

record clean = media +
  timestamp :: jsval

record normalized = clean +
  percent :: jsnum
  remaining :: jsnum
  elapsed :: jsnum

text \<open>
  The session: \<open>session_title\<close> and \<open>session_duration\<close> are its fields \<open>title\<close> and
  \<open>duration\<close>. Its id is the clock and a random suffix; \<open>watched\<close> is in seconds.
\<close>

record session =
  session_id :: "int \<times> string"
  session_title :: string
  started :: int
  updated :: int
  session_duration :: jsnum
  watched :: rat
  pauses :: nat
  seeks :: nat

text \<open>
  The handle of the watchdog timeout: armed with its due time, or spent once it has fired
  (the source keeps the handle in \<open>state.timeout\<close> after the callback has run).
\<close>

datatype timer = Armed int | Spent

text \<open>
  The two module variables \<open>state\<close> and \<open>cache\<close> in one record: \<open>now_playing\<close> is
  \<open>state.current\<close>, \<open>watchdog\<close> is \<open>state.timeout\<close>, \<open>cache_data\<close> and \<open>cache_timestamp\<close>
  are \<open>cache.data\<close> and \<open>cache.timestamp\<close>.
\<close>

record service =
  now_playing :: "normalized option"
  previous :: "normalized option"
  lastUpdate :: int
  session :: "session option"
  paused :: bool
  watchdog :: "timer option"
  cache_data :: "normalized option"
  cache_timestamp :: int
  hits :: nat
  misses :: nat

definition threshold :: rat where
  "threshold = 5"

definition timeout :: int where
  "timeout = 60000"

definition minDuration :: rat where
  "minDuration = 10"

definition maxTitle :: nat where
  "maxTitle = 128"

definition initial :: service where
  "initial = \<lparr>now_playing = None, previous = None, lastUpdate = 0, session = None,
     paused = False, watchdog = None, cache_data = None, cache_timestamp = 0,
     hits = 0, misses = 0\<rparr>"

definition validate :: "jsval \<Rightarrow> bool" where
  "validate d =
     (if \<not> truthy d \<or> typeof d \<noteq> TObject then False
      else if \<not> truthy (property d ''title'') \<or> typeof (property d ''title'') \<noteq> TString then False
      else if typeof (property d ''current'') \<noteq> TNumber
              \<or> jlt (the_number (property d ''current'')) (Fin 0) then False
      else if typeof (property d ''duration'') \<noteq> TNumber
              \<or> jlt (the_number (property d ''duration'')) (Fin minDuration) then False
      else if typeof (property d ''playing'') \<noteq> TBoolean then False
      else True)"

text \<open>
  \<open>sanitize\<close> is reached only from \<open>process\<close>, after \<open>validate\<close>: \<open>String\<close>,
  \<open>Math.floor\<close> and \<open>Boolean\<close> are applied to a string, two numbers and a boolean.
\<close>

definition sanitize :: "jsval \<Rightarrow> int \<Rightarrow> clean" where
  "sanitize d now =
     \<lparr>title = take maxTitle (the_string (property d ''title'')),
      current = jmax (Fin 0) (jfloor (the_number (property d ''current''))),
      duration = jmax (Fin 0) (jfloor (the_number (property d ''duration''))),
      playing = truthy (property d ''playing''),
      timestamp = (if truthy (property d ''timestamp'') then property d ''timestamp''
                   else Number (Fin (of_int now)))\<rparr>"

definition normalize :: "jsval \<Rightarrow> int \<Rightarrow> normalized" where
  "normalize d now =
     (let c = sanitize d now
      in \<lparr>title = title c, current = current c, duration = duration c, playing = playing c,
          timestamp = timestamp c,
          percent = jfloor (jmul (jdiv (current c) (duration c)) (Fin 100)),
          remaining = jsub (duration c) (current c),
          elapsed = current c\<rparr>)"

fun compare :: "normalized option \<Rightarrow> normalized option \<Rightarrow> bool" where
  "compare (Some prev) (Some next) =
     (if title prev \<noteq> title next then True
      else if playing prev \<noteq> playing next then True
      else if jgt (jabs (jsub (current prev) (current next))) (Fin threshold) then True
      else False)"
| "compare _ _ = True"

definition should_update :: "normalized \<Rightarrow> int \<Rightarrow> service \<Rightarrow> bool" where
  "should_update d now st =
     (if now_playing st = None then True
      else if \<not> compare (now_playing st) (Some d) then False
      else if now - lastUpdate st < 1000 then False
      else True)"

definition create_session :: "normalized \<Rightarrow> int \<Rightarrow> string \<Rightarrow> service \<Rightarrow> service" where
  "create_session d now rnd st =
     st\<lparr>session := Some \<lparr>session_id = (now, rnd), session_title = title d, started = now,
                          updated = now, session_duration = duration d, watched = 0,
                          pauses = 0, seeks = 0\<rparr>\<rparr>"

definition end_session :: "service \<Rightarrow> service" where
  "end_session st = (if session st = None then st else st\<lparr>session := None\<rparr>)"

text \<open>The seek, pause and watch-time bookkeeping of \<open>update_session\<close> on the session itself.\<close>

definition track :: "normalized \<Rightarrow> normalized \<Rightarrow> int \<Rightarrow> int \<Rightarrow> session \<Rightarrow> session" where
  "track d cur now since s =
     (let diff = jsub (current d) (current cur);
          s1 = (if jgt (jabs diff) (Fin threshold) then s\<lparr>seeks := seeks s + 1\<rparr> else s);
          s2 = (if playing d \<and> \<not> playing cur then s1\<lparr>pauses := pauses s1 + 1\<rparr> else s1)
      in if playing d
         then s2\<lparr>watched := watched s2 + min (of_int (now - since) / 1000) threshold\<rparr>
         else s2)"

definition update_session :: "normalized \<Rightarrow> int \<Rightarrow> string \<Rightarrow> service \<Rightarrow> service" where
  "update_session d now rnd st =
     (case session st of
        None \<Rightarrow> create_session d now rnd st
      | Some s \<Rightarrow>
          if session_title s \<noteq> title d then create_session d now rnd (end_session st)
          else
            let s1 = s\<lparr>updated := now\<rparr>
            in case now_playing st of
                 None \<Rightarrow> st\<lparr>session := Some s1\<rparr>
               | Some cur \<Rightarrow> st\<lparr>session := Some (track d cur now (lastUpdate st) s1)\<rparr>)"

definition reset_timeout :: "int \<Rightarrow> service \<Rightarrow> service" where
  "reset_timeout now st = st\<lparr>watchdog := Some (Armed (now + timeout))\<rparr>"

text \<open>
  \<open>handle_timeout\<close> drops the promise of \<open>rpc.clear\<close>; \<open>cleared\<close> is the result of
  \<open>client.clearActivity\<close>, should the client module reach it.
\<close>

definition handle_timeout :: "string option \<Rightarrow> service \<times> rpc_state \<Rightarrow> service \<times> rpc_state" where
  "handle_timeout cleared w =
     (let st = end_session (fst w);
          rs = snd (clear_activity cleared (snd w))
      in (st\<lparr>now_playing := None, previous := None, paused := False\<rparr>, rs))"

text \<open>The watchdog fires when it is armed and due, and runs \<open>handle_timeout\<close>.\<close>

definition watchdog_fire :: "int \<Rightarrow> string option \<Rightarrow> service \<times> rpc_state \<Rightarrow> (service \<times> rpc_state) option" where
  "watchdog_fire now cleared w =
     (case watchdog (fst w) of
        Some (Armed due) \<Rightarrow>
          if due \<le> now then Some (handle_timeout cleared ((fst w)\<lparr>watchdog := Some Spent\<rparr>, snd w))
          else None
      | _ \<Rightarrow> None)"

text \<open>
  What \<open>process\<close> returns: \<open>Failure\<close> is \<open>{success: false, error}\<close>, \<open>Cached\<close> is
  \<open>{success: true, cached: true}\<close>, \<open>Success\<close> is \<open>{success: true, data, session}\<close>.
\<close>

datatype result = Failure string | Cached | Success normalized "session option"

text \<open>
  \<open>process\<close> runs as one step: \<open>now\<close> is the clock up to the call of the client, \<open>later\<close>
  the clock after it, \<open>rnd\<close> the random suffix of a new session id and \<open>sent\<close> the result
  of \<open>client.setActivity\<close>. The calls of the logger change neither state and are left out.
\<close>

definition process ::
    "jsval \<Rightarrow> int \<Rightarrow> int \<Rightarrow> string \<Rightarrow> string option \<Rightarrow> service \<times> rpc_state \<Rightarrow> result \<times> service \<times> rpc_state" where
  "process d now later rnd sent w =
     (let st = fst w; rs = snd w
      in if \<not> validate d then (Failure ''invalid'', st, rs)
         else
           let n = normalize d now
           in if \<not> should_update n now st then (Cached, st\<lparr>hits := hits st + 1\<rparr>, rs)
              else
                let st1 = st\<lparr>misses := misses st + 1\<rparr>;
                    st2 = update_session n now rnd st1;
                    st3 = reset_timeout now st2;
                    st4 = st3\<lparr>previous := now_playing st3\<rparr>;
                    st5 = st4\<lparr>now_playing := Some n, lastUpdate := now, paused := (\<not> playing n)\<rparr>
                in case update n now later sent rs of
                     (Inr b, rs') \<Rightarrow>
                       (Success n (session st5),
                        st5\<lparr>cache_data := Some n, cache_timestamp := later\<rparr>, rs')
                   | (Inl err, rs') \<Rightarrow> (Failure err, st5, rs'))"

datatype reply = Done | Failed string

definition pause :: "int \<Rightarrow> int \<Rightarrow> string option \<Rightarrow> service \<times> rpc_state \<Rightarrow> reply \<times> service \<times> rpc_state" where
  "pause now later sent w =
     (let st = fst w; rs = snd w
      in if now_playing st = None then (Failed ''no_active'', st, rs)
         else case rpc_pause now later sent rs of
                (Inr b, rs') \<Rightarrow> (Done, st\<lparr>paused := True\<rparr>, rs')
              | (Inl err, rs') \<Rightarrow> (Failed err, st, rs'))"

definition resume :: "int \<Rightarrow> int \<Rightarrow> string option \<Rightarrow> service \<times> rpc_state \<Rightarrow> reply \<times> service \<times> rpc_state" where
  "resume now later sent w =
     (let st = fst w; rs = snd w
      in if now_playing st = None then (Failed ''no_active'', st, rs)
         else case rpc_resume now later sent rs of
                (Inr b, rs') \<Rightarrow> (Done, st\<lparr>paused := False\<rparr>, rs')
              | (Inl err, rs') \<Rightarrow> (Failed err, st, rs'))"

definition stop :: "string option \<Rightarrow> service \<times> rpc_state \<Rightarrow> reply \<times> service \<times> rpc_state" where
  "stop cleared w =
     (case clear_activity cleared (snd w) of
        (Inr b, rs') \<Rightarrow>
          (Done,
           (end_session (fst w))\<lparr>watchdog := None, now_playing := None, previous := None,
                                 paused := False\<rparr>,
           rs')
      | (Inl err, rs') \<Rightarrow> (Failed err, fst w, rs'))"

definition reset :: "service \<times> rpc_state \<Rightarrow> service \<times> rpc_state" where
  "reset w =
     ((end_session (fst w))\<lparr>now_playing := None, previous := None, lastUpdate := 0,
         session := None, paused := False, watchdog := None,
         cache_data := None, cache_timestamp := 0, hits := 0, misses := 0\<rparr>,
      snd w)"

record cache_status =
  status_hits :: nat
  status_misses :: nat
  ratio :: rat

record status_report =
  active :: bool
  status_paused :: bool
  status_current :: "normalized option"
  status_session :: "session option"
  status_lastUpdate :: int
  status_cache :: cache_status

definition status :: "service \<Rightarrow> status_report" where
  "status st =
     \<lparr>active = (now_playing st \<noteq> None), status_paused = paused st,
      status_current = now_playing st, status_session = session st,
      status_lastUpdate = lastUpdate st,
      status_cache = \<lparr>status_hits = hits st, status_misses = misses st,
         ratio = (if hits st + misses st = 0 then 0
                  else of_nat (hits st) / of_nat (hits st + misses st))\<rparr>\<rparr>"

section \<open>Concrete samples and states\<close>

text \<open>
  The two samples of the rendering scenarios, the first of them after a seek, and a
  connection that is ready.
\<close>

definition inception :: jsval where
  "inception = Object [(''title'', String ''Inception''), (''current'', Number (Fin 500)),
     (''duration'', Number (Fin 7200)), (''playing'', Boolean False)]"

definition stranger_things :: jsval where
  "stranger_things = Object [(''title'', String ''Stranger Things: S04E09 - The Piggyback''),
     (''current'', Number (Fin 0)), (''duration'', Number (Fin 3000)), (''playing'', Boolean True)]"

definition stranger_seek :: jsval where
  "stranger_seek = Object [(''title'', String ''Stranger Things: S04E09 - The Piggyback''),
     (''current'', Number (Fin 120)), (''duration'', Number (Fin 3000)), (''playing'', Boolean True)]"

definition rpc_ready :: rpc_state where
  "rpc_ready = rpc_initial\<lparr>client := Some IpcClient, connected := True, ready := True,
     client_id := Some ''1472931378441228308'', sink := [Login (Some ''1472931378441228308'')]\<rparr>"

text \<open>The service and the connection after the first sample has been shown.\<close>

definition watching :: "service \<times> rpc_state" where
  "watching = snd (process stranger_things 1000 1001 ''k3x'' None (initial, rpc_ready))"

section \<open>Runs\<close>

text \<open>
  The states the two modules can be in: from the initial values of the module variables,
  by the entry points of the service, by the watchdog, and by the entry points, callbacks
  and reconnect timeouts of the client module. A callback needs a client that emits it.
\<close>

inductive reachable :: "service \<times> rpc_state \<Rightarrow> bool" where
  at_start: "reachable (initial, rpc_initial)"
| by_process: "reachable w \<Longrightarrow> reachable (snd (process d now later rnd sent w))"
| by_pause: "reachable w \<Longrightarrow> reachable (snd (pause now later sent w))"
| by_resume: "reachable w \<Longrightarrow> reachable (snd (resume now later sent w))"
| by_stop: "reachable w \<Longrightarrow> reachable (snd (stop cleared w))"
| by_reset: "reachable w \<Longrightarrow> reachable (reset w)"
| by_watchdog: "reachable w \<Longrightarrow> watchdog_fire now cleared w = Some w' \<Longrightarrow> reachable w'"
| by_connect: "reachable (st, rs) \<Longrightarrow> reachable (st, snd (connect i login now rs))"
| by_reconnect:
    "reachable (st, rs) \<Longrightarrow> reconnect_fire due login now rs = Some (b, rs') \<Longrightarrow> reachable (st, rs')"
| by_ready: "reachable (st, rs) \<Longrightarrow> client rs \<noteq> None \<Longrightarrow> reachable (st, handle_ready now later sent rs)"
| by_disconnected: "reachable (st, rs) \<Longrightarrow> client rs \<noteq> None \<Longrightarrow> reachable (st, handle_disconnect now rs)"
| by_error: "reachable (st, rs) \<Longrightarrow> client rs \<noteq> None \<Longrightarrow> reachable (st, handle_error rs)"
| by_disconnect: "reachable (st, rs) \<Longrightarrow> reachable (st, disconnect rs)"
| by_destroy: "reachable (st, rs) \<Longrightarrow> reachable (st, destroy rs)"

text \<open>The invariant of the service: a session is kept only while a sample is current.\<close>

definition playing_with_session :: "service \<Rightarrow> bool" where
  "playing_with_session st = (session st = None \<or> now_playing st \<noteq> None)"

text \<open>
  A login that is refused every time: the first \<open>connect\<close> at time 0, then each reconnect
  timeout firing when it is due, 5000 ms after the failure before it. \<open>retries n\<close> is
  the client module after the first login and \<open>n\<close> reconnects have failed.
\<close>

fun retries :: "nat \<Rightarrow> rpc_state" where
  "retries 0 = snd (connect (Some ''1472931378441228308'') (Some ''refused'') 0 rpc_initial)"
| "retries (Suc n) =
     (case reconnect_fire (5000 * int (Suc n)) (Some ''refused'') (5000 * int (Suc n)) (retries n) of
        Some (b, rs) \<Rightarrow> rs
      | None \<Rightarrow> retries n)"

text \<open>The connection of \<open>watching\<close> after the client has reported \<open>disconnected\<close>.\<close>

definition dropped :: rpc_state where
  "dropped = handle_disconnect 30000 (snd watching)"

text \<open>A connection that is down with its attempts used up and an activity still cached.\<close>

definition exhausted :: rpc_state where
  "exhausted = rpc_initial\<lparr>client := Some IpcClient, attempts := 3,
     client_id := Some ''1472931378441228308'',
     activity := Some \<lparr>title = ''Inception'', current = Fin 500, duration = Fin 7200,
                         playing = False, cached_at = 1001\<rparr>,
     rpc_timestamp := Some 1001\<rparr>"

text \<open>
  The invariant of the client module: the attempt counter is at most 1, and without a
  client there is no attempt counted, no cached activity and no connection.
\<close>

definition client_kept :: "rpc_state \<Rightarrow> bool" where
  "client_kept rs =
     (attempts rs \<le> 1 \<and>
      (client rs = None \<longrightarrow>
         attempts rs = 0 \<and> activity rs = None \<and> \<not> connected rs \<and> \<not> ready rs))"

section \<open>Properties\<close>

subsection \<open>Auxiliary facts\<close>

lemma set_activity_resolves: "\<exists>b. fst (set_activity d now later sent rs) = Inr b"
  by (auto simp: set_activity_def set_activity_try_def Let_def split: option.splits)

lemma update_resolves: "\<exists>b. fst (update d now later sent rs) = Inr b"
  using set_activity_resolves by (auto simp: update_def Let_def)

lemma set_activity_calls: "calls (snd (set_activity d now later sent rs)) = calls rs"
  by (simp add: set_activity_def set_activity_try_def Let_def split: option.splits)

lemma update_calls: "calls (snd (update d now later sent rs)) = calls rs @ [CallUpdate]"
  by (simp add: update_def Let_def set_activity_calls)

lemma jabs_jsub_sym: "jabs (jsub a b) = jabs (jsub b a)"
  by (cases a; cases b) (simp_all add: jsub_def)

lemma jabs_jsub_self: "\<not> jgt (jabs (jsub a a)) (Fin threshold)"
  by (cases a) (simp_all add: jsub_def jgt_def threshold_def)

lemma process_accept:
  assumes "validate d" and "should_update (normalize d now) now st"
  shows "\<exists>b. fst (update (normalize d now) now later sent rs) = Inr b \<and>
     process d now later rnd sent (st, rs) =
       (Success (normalize d now)
          (session (update_session (normalize d now) now rnd (st\<lparr>misses := misses st + 1\<rparr>))),
        (reset_timeout now (update_session (normalize d now) now rnd (st\<lparr>misses := misses st + 1\<rparr>)))
          \<lparr>previous := now_playing st, now_playing := Some (normalize d now), lastUpdate := now,
           paused := (\<not> playing (normalize d now)),
           cache_data := Some (normalize d now), cache_timestamp := later\<rparr>,
        snd (update (normalize d now) now later sent rs))"
proof -
  obtain b where b: "fst (update (normalize d now) now later sent rs) = Inr b"
    using update_resolves by blast
  then obtain rs' where u: "update (normalize d now) now later sent rs = (Inr b, rs')"
    by (cases "update (normalize d now) now later sent rs") simp
  have np: "now_playing (reset_timeout now (update_session (normalize d now) now rnd (st\<lparr>misses := misses st + 1\<rparr>))) = now_playing st"
    by (simp add: reset_timeout_def update_session_def create_session_def end_session_def Let_def
          split: option.splits)
  show ?thesis
    using assms b u np by (simp add: process_def Let_def reset_timeout_def)
qed

lemma process_suppress:
  assumes "validate d" and "\<not> should_update (normalize d now) now st"
  shows "process d now later rnd sent (st, rs) = (Cached, st\<lparr>hits := hits st + 1\<rparr>, rs)"
  using assms by (simp add: process_def Let_def)

lemma normalize_clock:
  "title (normalize d t) = title (normalize d t')"
  "playing (normalize d t) = playing (normalize d t')"
  "current (normalize d t) = current (normalize d t')"
  by (simp_all add: normalize_def sanitize_def Let_def)

lemma compare_clock:
  "compare p (Some (normalize d t)) = compare p (Some (normalize d t'))"
  using normalize_clock [of d t t'] by (cases p) simp_all

lemma compare_same: "\<not> compare (Some (normalize d t)) (Some (normalize d t'))"
  using normalize_clock [of d t t'] jabs_jsub_self [of "current (normalize d t')"] by simp

lemma should_update_iff:
  "should_update n now st \<longleftrightarrow>
     (now_playing st = None \<or>
      (\<exists>c. now_playing st = Some c \<and>
         (title c \<noteq> title n \<or> playing c \<noteq> playing n
            \<or> jgt (jabs (jsub (current n) (current c))) (Fin 5))
         \<and> 1000 \<le> now - lastUpdate st))"
  by (cases "now_playing st") (auto simp: should_update_def threshold_def jabs_jsub_sym [of "current n"])

lemma validate_stranger_things: "validate stranger_things"
  by (simp add: validate_def stranger_things_def minDuration_def)

lemma first_sample: "should_update n now initial"
  by (simp add: should_update_def initial_def)

lemma process_keeps:
  "playing_with_session (fst w) \<Longrightarrow> playing_with_session (fst (snd (process d now later rnd sent w)))"
  by (auto simp: playing_with_session_def process_def Let_def reset_timeout_def
        split: prod.splits sum.splits)

lemma reachable_session:
  "reachable w \<Longrightarrow> playing_with_session (fst w)"
proof (induction rule: reachable.induct)
  case at_start
  show ?case by (simp add: playing_with_session_def initial_def)
next
  case (by_process w d now later rnd sent)
  then show ?case by (simp add: process_keeps)
next
  case (by_pause w now later sent)
  then show ?case
    by (auto simp: playing_with_session_def pause_def Let_def split: prod.splits sum.splits)
next
  case (by_resume w now later sent)
  then show ?case
    by (auto simp: playing_with_session_def resume_def Let_def split: prod.splits sum.splits)
next
  case (by_stop w cleared)
  then show ?case
    by (auto simp: playing_with_session_def stop_def end_session_def clear_activity_def Let_def
          split: prod.splits sum.splits option.splits if_splits)
next
  case (by_reset w)
  then show ?case by (simp add: playing_with_session_def reset_def)
next
  case (by_watchdog w now cleared w')
  then show ?case
    by (auto simp: playing_with_session_def watchdog_fire_def handle_timeout_def end_session_def
          Let_def split: option.splits timer.splits if_splits)
qed simp_all

lemma validate_stranger_seek: "validate stranger_seek"
  by (simp add: validate_def stranger_seek_def minDuration_def)

lemma rpc_ready_run:
  "handle_ready 10 11 None (snd (connect (Some ''1472931378441228308'') None 5 rpc_initial)) = rpc_ready"
  by (simp add: handle_ready_def connect_def create_def rpc_initial_def rpc_ready_def Let_def)

lemma reachable_rpc_ready: "reachable (initial, rpc_ready)"
proof -
  have c: "reachable (initial, snd (connect (Some ''1472931378441228308'') None 5 rpc_initial))"
    by (rule by_connect [OF at_start])
  have "client (snd (connect (Some ''1472931378441228308'') None 5 rpc_initial)) \<noteq> None"
    by (simp add: connect_def create_def rpc_initial_def Let_def)
  from by_ready [OF c this, of 10 11 None] show ?thesis by (simp add: rpc_ready_run)
qed

lemma reachable_watching: "reachable watching"
  unfolding watching_def by (rule by_process [OF reachable_rpc_ready])

lemma update_frame:
  "client (snd (update d now later sent rs)) = client rs"
  "ready (snd (update d now later sent rs)) = ready rs"
  "connected (snd (update d now later sent rs)) = connected rs"
  "attempts (snd (update d now later sent rs)) = attempts rs"
  "timers (snd (update d now later sent rs)) = timers rs"
  by (simp_all add: update_def set_activity_def set_activity_try_def Let_def split: option.splits)

lemma success_accepted:
  assumes "process d t later rnd sent w = (Success n s, st1, rs1)"
  shows "validate d \<and> should_update (normalize d t) t (fst w)"
proof -
  obtain st rs where w: "w = (st, rs)" by (cases w)
  show ?thesis
  proof (rule ccontr)
    assume "\<not> ?thesis"
    then consider "\<not> validate d" | "validate d" "\<not> should_update (normalize d t) t st"
      using w by auto
    then show False
    proof cases
      case 1
      then show False using assms by (simp add: process_def Let_def)
    next
      case 2
      from process_suppress [OF 2, of later rnd sent rs] assms w show False by simp
    qed
  qed
qed

lemma clear_activity_effect:
  "calls (snd (clear_activity cleared rs)) = calls rs @ [CallClear]"
  "client rs \<noteq> None \<and> ready rs \<Longrightarrow> sink (snd (clear_activity cleared rs)) = sink rs @ [ClearActivity]"
  "client rs \<noteq> None \<and> ready rs \<Longrightarrow> cleared = None \<Longrightarrow>
     activity (snd (clear_activity cleared rs)) = None \<and> ticker (snd (clear_activity cleared rs)) = None"
  by (auto simp: clear_activity_def Let_def split: option.splits)

lemma watching_run:
  "process stranger_things 1000 1001 ''k3x'' None (initial, rpc_ready) =
     (Success (normalize stranger_things 1000)
        (session (update_session (normalize stranger_things 1000) 1000 ''k3x'' (initial\<lparr>misses := misses initial + 1\<rparr>))),
      fst watching, snd watching)"
  using process_accept [OF validate_stranger_things first_sample, of 1000 1001 None rpc_ready "''k3x''"]
  by (simp add: watching_def)

lemma watching_connection:
  "client (snd watching) \<noteq> None" "ready (snd watching)"
  using process_accept [OF validate_stranger_things first_sample, of 1000 1001 None rpc_ready "''k3x''"]
  by (simp_all add: watching_def update_frame rpc_ready_def rpc_initial_def)


lemma watching_activity: "activity (snd watching) \<noteq> None"
  using process_accept [OF validate_stranger_things first_sample, of 1000 1001 None rpc_ready "''k3x''"]
  by (simp add: watching_def update_def set_activity_def set_activity_try_def is_connected_def
        validate_data_def normalize_def sanitize_def stranger_things_def rpc_ready_def
        rpc_initial_def Let_def jmax_def jle_def maxTitle_def)

lemma parse_stranger_things:
  "parse_title ''Stranger Things: S04E09 - The Piggyback'' =
     Some \<lparr>series = ''Stranger Things'', season = Some ''04'', episode = ''09'',
           name = Some ''The Piggyback'', format = Season\<rparr>"
  by code_simp

lemma parse_inception: "parse_title ''Inception'' = None"
  by code_simp

lemma normalize_stranger_things:
  "title (normalize stranger_things t) = ''Stranger Things: S04E09 - The Piggyback''"
  "current (normalize stranger_things t) = Fin 0"
  "duration (normalize stranger_things t) = Fin 3000"
  "playing (normalize stranger_things t)"
  by (simp_all add: normalize_def sanitize_def stranger_things_def Let_def jmax_def maxTitle_def)

lemma normalize_inception:
  "title (normalize inception t) = ''Inception''"
  "current (normalize inception t) = Fin 500"
  "duration (normalize inception t) = Fin 7200"
  "\<not> playing (normalize inception t)"
  by (simp_all add: normalize_def sanitize_def inception_def Let_def jmax_def maxTitle_def)

lemma render_stranger_things:
  "render (normalize stranger_things t) now =
     \<lparr>details = ''Stranger Things'', state = Some ''S04E09 - The Piggyback'',
      largeImageKey = ''netflix_logo'', largeImageText = ''Netflix'', activity_type = 3,
      is_instance = False, startTimestamp = Some (now div 1000),
      endTimestamp = Some (now div 1000 + 3000)\<rparr>"
  by (simp add: render_def format_activity_def normalize_stranger_things parse_stranger_things
        plain_activity_def opt_string_def seconds_def Let_def)

lemma render_inception:
  "render (normalize inception t) now =
     \<lparr>details = ''Inception'', state = None,
      largeImageKey = ''netflix_logo'', largeImageText = ''Netflix'', activity_type = 3,
      is_instance = False, startTimestamp = None, endTimestamp = None\<rparr>"
  by (simp add: render_def format_activity_def normalize_inception parse_inception
        plain_activity_def seconds_def Let_def)

lemma format_activity_no_timestamps:
  "startTimestamp (format_activity d) = None \<and> endTimestamp (format_activity d) = None"
  by (simp add: format_activity_def plain_activity_def split: option.splits title_format.splits)

lemma update_sends:
  assumes "client rs \<noteq> None" and "connected rs" and "ready rs" and "validate_data d"
  shows "sink (snd (update d now later sent rs)) = sink rs @ [SetActivity (render d now)]"
  using assms
  by (simp add: update_def is_connected_def set_activity_def set_activity_try_def Let_def
        split: option.splits)

lemma connect_forgets:
  assumes "client rs \<noteq> None" and "\<not> connected rs"
  shows "activity (snd (connect i login now rs)) = None"
    and "sink (snd (connect i login now rs)) = sink rs @ [Destroy, Login i]"
    and "sink (handle_ready t t' sent (snd (connect i login now rs))) = sink rs @ [Destroy, Login i]"
    and "login = None \<Longrightarrow> attempts (snd (connect i login now rs)) = 0"
  using assms
  by (cases login;
      simp add: connect_def create_def destroy_def disconnect_def schedule_reconnect_def
        handle_ready_def Let_def)+

lemma dropped_state:
  "client dropped \<noteq> None" "\<not> connected dropped" "activity dropped \<noteq> None"
  using watching_connection watching_activity
  by (simp_all add: dropped_def handle_disconnect_def schedule_reconnect_def)

lemma set_activity_kept:
  "client_kept rs \<Longrightarrow> client rs \<noteq> None \<Longrightarrow> client_kept (snd (set_activity d now later sent rs))"
  by (auto simp: client_kept_def set_activity_def set_activity_try_def Let_def split: option.splits)

lemma update_kept: "client_kept rs \<Longrightarrow> client_kept (snd (update d now later sent rs))"
proof -
  assume k: "client_kept rs"
  let ?rs = "rs\<lparr>calls := calls rs @ [CallUpdate]\<rparr>"
  have k': "client_kept ?rs" using k by (simp add: client_kept_def)
  show ?thesis
  proof (cases "validate_data d \<and> is_connected ?rs")
    case True
    then have "client ?rs \<noteq> None" using k' by (auto simp: client_kept_def is_connected_def)
    from set_activity_kept [OF k' this, of d now later sent] True show ?thesis
      by (simp add: update_def Let_def)
  next
    case False
    then show ?thesis using k' by (auto simp: update_def Let_def)
  qed
qed

lemma rpc_pause_kept: "client_kept rs \<Longrightarrow> client_kept (snd (rpc_pause now later sent rs))"
proof -
  assume k: "client_kept rs"
  let ?rs = "rs\<lparr>calls := calls rs @ [CallPause]\<rparr>"
  have k': "client_kept ?rs" using k by (simp add: client_kept_def)
  show ?thesis
  proof (cases "activity ?rs")
    case None
    then show ?thesis using k' by (simp add: rpc_pause_def Let_def)
  next
    case (Some a)
    then have "client ?rs \<noteq> None" using k' by (auto simp: client_kept_def)
    from set_activity_kept [OF k' this] Some show ?thesis
      by (simp add: rpc_pause_def Let_def)
  qed
qed

lemma rpc_resume_kept: "client_kept rs \<Longrightarrow> client_kept (snd (rpc_resume now later sent rs))"
proof -
  assume k: "client_kept rs"
  let ?rs = "rs\<lparr>calls := calls rs @ [CallResume]\<rparr>"
  have k': "client_kept ?rs" using k by (simp add: client_kept_def)
  show ?thesis
  proof (cases "activity ?rs")
    case None
    then show ?thesis using k' by (simp add: rpc_resume_def Let_def)
  next
    case (Some a)
    then have "client ?rs \<noteq> None" using k' by (auto simp: client_kept_def)
    from set_activity_kept [OF k' this] Some show ?thesis
      by (simp add: rpc_resume_def Let_def)
  qed
qed

lemma clear_activity_kept: "client_kept rs \<Longrightarrow> client_kept (snd (clear_activity cleared rs))"
  by (auto simp: client_kept_def clear_activity_def Let_def split: option.splits)

lemma connect_kept: "client_kept rs \<Longrightarrow> client_kept (snd (connect i login now rs))"
  by (auto simp: client_kept_def connect_def create_def destroy_def disconnect_def
        schedule_reconnect_def Let_def split: option.splits)

lemma handle_ready_kept:
  "client_kept rs \<Longrightarrow> client rs \<noteq> None \<Longrightarrow> client_kept (handle_ready now later sent rs)"
proof -
  assume k: "client_kept rs" and c: "client rs \<noteq> None"
  let ?rs = "rs\<lparr>connected := True, ready := True, attempts := 0\<rparr>"
  have k': "client_kept ?rs" and c': "client ?rs \<noteq> None"
    using k c by (simp_all add: client_kept_def)
  show ?thesis
    using k' set_activity_kept [OF k' c']
    by (cases "activity rs") (simp_all add: handle_ready_def Let_def)
qed

lemma reachable_client: "reachable w \<Longrightarrow> client_kept (snd w)"
proof (induction rule: reachable.induct)
  case at_start
  show ?case by (simp add: client_kept_def rpc_initial_def)
next
  case (by_process w d now later rnd sent)
  then show ?case
    using update_kept [of "snd w" "normalize d now" now later sent]
    by (auto simp: process_def Let_def split: prod.splits sum.splits)
next
  case (by_pause w now later sent)
  then show ?case
    using rpc_pause_kept [of "snd w" now later sent]
    by (auto simp: pause_def Let_def split: prod.splits sum.splits)
next
  case (by_resume w now later sent)
  then show ?case
    using rpc_resume_kept [of "snd w" now later sent]
    by (auto simp: resume_def Let_def split: prod.splits sum.splits)
next
  case (by_stop w cleared)
  then show ?case
    using clear_activity_kept [of "snd w" cleared]
    by (auto simp: stop_def split: prod.splits sum.splits)
next
  case (by_reset w)
  then show ?case by (simp add: reset_def)
next
  case (by_watchdog w now cleared w')
  then show ?case
    using clear_activity_kept [of "snd w" cleared]
    by (auto simp: watchdog_fire_def handle_timeout_def Let_def
          split: option.splits timer.splits if_splits)
next
  case (by_connect st rs i login now)
  then show ?case by (simp add: connect_kept)
next
  case (by_reconnect st rs due login now b rs')
  then show ?case
    using connect_kept [of "rs\<lparr>timers := remove1 due (timers rs)\<rparr>" "client_id rs" login now]
    by (auto simp: reconnect_fire_def reconnect_def client_kept_def split: if_splits)
next
  case (by_ready st rs now later sent)
  then show ?case by (simp add: handle_ready_kept)
next
  case (by_disconnected st rs now)
  then show ?case
    by (auto simp: client_kept_def handle_disconnect_def schedule_reconnect_def)
next
  case (by_error st rs)
  then show ?case by (auto simp: client_kept_def handle_error_def)
next
  case (by_disconnect st rs)
  then show ?case by (auto simp: client_kept_def disconnect_def)
next
  case (by_destroy st rs)
  then show ?case by (auto simp: client_kept_def destroy_def disconnect_def)
qed

subsection \<open>Propagation and suppression\<close>

text \<open>
  Claim C1. A raw sample that passes \<open>validate\<close> is propagated exactly when there is no
  current sample, or the sample is changed (its title or its playing flag differs from the
  current sample's, or the positions differ by more than 5) and at least 1000 ms have
  passed since the last propagated update. A propagated sample becomes the current one,
  counts as a cache miss, reaches \<open>rpc.update\<close> and is answered with success; in every
  other case the answer is \<open>cached\<close> and only the hit counter moves.
\<close>

theorem process_propagation:
  assumes "validate d"
  shows "(let n = normalize d now; out = process d now later rnd sent (st, rs);
              go = (now_playing st = None \<or>
                    (\<exists>c. now_playing st = Some c \<and>
                       (title c \<noteq> title n \<or> playing c \<noteq> playing n
                          \<or> jgt (jabs (jsub (current n) (current c))) (Fin 5))
                       \<and> 1000 \<le> now - lastUpdate st))
          in (go \<longrightarrow> (\<exists>s. fst out = Success n s) \<and> now_playing (fst (snd out)) = Some n
                    \<and> lastUpdate (fst (snd out)) = now \<and> misses (fst (snd out)) = misses st + 1
                    \<and> calls (snd (snd out)) = calls rs @ [CallUpdate])
           \<and> (\<not> go \<longrightarrow> out = (Cached, st\<lparr>hits := hits st + 1\<rparr>, rs)))"
proof (cases "should_update (normalize d now) now st")
  case True
  from process_accept [OF assms True, of later sent rs rnd] True
  show ?thesis
    unfolding Let_def should_update_iff [symmetric]
    by (auto simp: update_calls reset_timeout_def update_session_def create_session_def
          end_session_def Let_def split: option.splits)
next
  case False
  from process_suppress [OF assms False, of later rnd sent rs] False
  show ?thesis
    unfolding Let_def should_update_iff [symmetric] by simp
qed

theorem process_propagation_witness:
  "validate stranger_things
   \<and> (\<exists>s. fst (process stranger_things 1000 1001 ''k3x'' None (initial, rpc_initial)) =
            Success (normalize stranger_things 1000) s)
   \<and> process stranger_things 1400 1401 ''k3x'' None
        (initial\<lparr>now_playing := Some (normalize inception 1000), lastUpdate := 1000\<rparr>, rpc_initial) =
      (Cached, initial\<lparr>now_playing := Some (normalize inception 1000), lastUpdate := 1000, hits := 1\<rparr>,
       rpc_initial)"
proof -
  note v = validate_stranger_things
  have a: "\<exists>s. fst (process stranger_things 1000 1001 ''k3x'' None (initial, rpc_initial)) =
            Success (normalize stranger_things 1000) s"
    using process_propagation [OF v, of 1000 1001 "''k3x''" None initial rpc_initial]
    by (simp add: Let_def initial_def)
  have b: "process stranger_things 1400 1401 ''k3x'' None
        (initial\<lparr>now_playing := Some (normalize inception 1000), lastUpdate := 1000\<rparr>, rpc_initial) =
      (Cached, initial\<lparr>now_playing := Some (normalize inception 1000), lastUpdate := 1000, hits := 1\<rparr>,
       rpc_initial)"
    using process_propagation [OF v, of 1400 1401 "''k3x''" None
        "initial\<lparr>now_playing := Some (normalize inception 1000), lastUpdate := 1000\<rparr>" rpc_initial]
    by (simp add: Let_def initial_def)
  show ?thesis using v a b by blast
qed

subsection \<open>The same sample twice\<close>

text \<open>
  Claim C2. When \<open>process\<close> is called a second time with the same valid sample, less than
  1000 ms after the last propagated update, the answer is \<open>{success: true, cached: true}\<close>;
  the session, the watchdog, the connection and the calls made to it are as they were, and
  only the hit counter has grown by one.
\<close>

theorem process_twice:
  assumes "validate d" and "process d t1 l1 r1 s1 w = (res, st1, rs1)"
    and "t2 - lastUpdate st1 < 1000"
  shows "process d t2 l2 r2 s2 (st1, rs1) = (Cached, st1\<lparr>hits := hits st1 + 1\<rparr>, rs1)"
proof -
  obtain st rs where w: "w = (st, rs)" by (cases w)
  have "\<not> should_update (normalize d t2) t2 st1"
  proof (cases "should_update (normalize d t1) t1 st")
    case True
    from process_accept [OF assms(1) True, of l1 s1 rs r1] assms(2) w
    have "now_playing st1 = Some (normalize d t1)" by auto
    then show ?thesis using compare_same [of d t1 t2] by (simp add: should_update_def)
  next
    case False
    from process_suppress [OF assms(1) False, of l1 r1 s1 rs] assms(2) w
    have st1: "st1 = st\<lparr>hits := hits st + 1\<rparr>" by simp
    show ?thesis using False assms(3) compare_clock [of "now_playing st" d t1 t2]
      by (auto simp: should_update_def st1 split: if_splits)
  qed
  from process_suppress [OF assms(1) this] show ?thesis .
qed

theorem process_twice_witness:
  "validate stranger_things
   \<and> 1500 - lastUpdate (fst (snd (process stranger_things 1000 1001 ''k3x'' None (initial, rpc_initial)))) < 1000
   \<and> fst (process stranger_things 1500 1501 ''q7a'' None
        (snd (process stranger_things 1000 1001 ''k3x'' None (initial, rpc_initial)))) = Cached
   \<and> hits (fst (snd (process stranger_things 1500 1501 ''q7a'' None
        (snd (process stranger_things 1000 1001 ''k3x'' None (initial, rpc_initial)))))) = 1"
proof -
  note v = validate_stranger_things
  obtain res st1 rs1 where
    p: "process stranger_things 1000 1001 ''k3x'' None (initial, rpc_initial) = (res, st1, rs1)"
    by (cases "process stranger_things 1000 1001 ''k3x'' None (initial, rpc_initial)") blast
  from process_accept [OF v first_sample, of 1000 1001 None rpc_initial "''k3x''"] p
  have l: "lastUpdate st1 = 1000" and h: "hits st1 = 0"
    by (auto simp: reset_timeout_def update_session_def create_session_def initial_def)
  then have t: "1500 - lastUpdate st1 < 1000" by simp
  from process_twice [OF v p t, of 1501 "''q7a''" None] p l h
  show ?thesis using v by simp
qed

subsection \<open>A send that fails\<close>

text \<open>
  Claim C3. On a ready connection whose client rejects \<open>setActivity\<close>, \<open>rpc.update\<close>
  answers \<open>false\<close> and \<open>process\<close> answers \<open>{success: true, data, session}\<close>, not
  \<open>{success: false, error}\<close>; the current sample, \<open>lastUpdate\<close> and the paused flag are
  those of the new sample.
\<close>

theorem process_send_failure:
  "fst (update (normalize inception 1000) 1000 1001 (Some ''connection closed'') rpc_ready) = Inr False
   \<and> fst (process inception 1000 1001 ''k3x'' (Some ''connection closed'') (initial, rpc_ready)) =
       Success (normalize inception 1000)
         (Some \<lparr>session_id = (1000, ''k3x''), session_title = ''Inception'', started = 1000,
            updated = 1000, session_duration = Fin 7200, watched = 0, pauses = 0, seeks = 0\<rparr>)
   \<and> now_playing (fst (snd (process inception 1000 1001 ''k3x'' (Some ''connection closed'') (initial, rpc_ready)))) =
       Some (normalize inception 1000)
   \<and> lastUpdate (fst (snd (process inception 1000 1001 ''k3x'' (Some ''connection closed'') (initial, rpc_ready)))) = 1000
   \<and> paused (fst (snd (process inception 1000 1001 ''k3x'' (Some ''connection closed'') (initial, rpc_ready))))"
proof -
  have v: "validate inception"
    by (simp add: validate_def inception_def minDuration_def)
  have u: "fst (update (normalize inception 1000) 1000 1001 (Some ''connection closed'') rpc_ready) = Inr False"
    by (simp add: update_def set_activity_def set_activity_try_def is_connected_def validate_data_def
          normalize_inception jle_def rpc_ready_def rpc_initial_def Let_def)
  from process_accept [OF v first_sample, of 1000 1001 "Some ''connection closed''" rpc_ready "''k3x''"]
  show ?thesis using u
    by (auto simp: reset_timeout_def update_session_def create_session_def initial_def
          normalize_inception)
qed

subsection \<open>Reset\<close>




subsection \<open>The watchdog\<close>

text \<open>
  Claim C5. An accepted sample arms the watchdog 60000 ms ahead. With no further accepted
  sample the watchdog does not fire before that time; when it fires, it ends the session,
  calls \<open>rpc.clear\<close> (which, on a ready connection, asks the client to clear the activity
  and forgets the cached one once the client has done so) and drops the current and the
  previous sample, so that \<open>status\<close> reports \<open>active = false\<close> and no session.
\<close>

theorem watchdog_timeout:
  assumes "process d t later rnd sent w = (Success n s, st1, rs1)"
  shows "watchdog st1 = Some (Armed (t + 60000))
     \<and> (now < t + 60000 \<longrightarrow> watchdog_fire now cleared (st1, rs1) = None)
     \<and> (t + 60000 \<le> now \<longrightarrow>
          (\<exists>st' rs'. watchdog_fire now cleared (st1, rs1) = Some (st', rs')
             \<and> session st' = None \<and> now_playing st' = None \<and> previous st' = None
             \<and> \<not> active (status st') \<and> status_session (status st') = None
             \<and> calls rs' = calls rs1 @ [CallClear]
             \<and> (client rs1 \<noteq> None \<and> ready rs1 \<longrightarrow>
                  sink rs' = sink rs1 @ [ClearActivity]
                  \<and> (cleared = None \<longrightarrow> activity rs' = None \<and> ticker rs' = None))))"
proof -
  obtain st rs where w: "w = (st, rs)" by (cases w)
  from success_accepted [OF assms] w
  have v: "validate d" and u: "should_update (normalize d t) t st" by simp_all
  from process_accept [OF v u, of later sent rs rnd] assms w
  have a: "watchdog st1 = Some (Armed (t + 60000))"
    by (auto simp: reset_timeout_def timeout_def)
  have b: "now < t + 60000 \<Longrightarrow> watchdog_fire now cleared (st1, rs1) = None"
    using a by (simp add: watchdog_fire_def)
  have c: "t + 60000 \<le> now \<Longrightarrow> watchdog_fire now cleared (st1, rs1) =
      Some ((end_session (st1\<lparr>watchdog := Some Spent\<rparr>))\<lparr>now_playing := None, previous := None, paused := False\<rparr>,
            snd (clear_activity cleared rs1))"
    using a by (simp add: watchdog_fire_def handle_timeout_def Let_def)
  have e: "session (end_session x) = None" for x
    by (simp add: end_session_def)
  show ?thesis using a b c clear_activity_effect [where cleared = cleared and rs = rs1]
    by (auto simp: status_def e end_session_def)
qed

theorem watchdog_timeout_witness:
  "(\<exists>n s. fst (process stranger_things 1000 1001 ''k3x'' None (initial, rpc_ready)) = Success n s)
   \<and> watchdog_fire 60999 None watching = None
   \<and> (\<exists>st' rs'. watchdog_fire 61000 None watching = Some (st', rs')
         \<and> \<not> active (status st') \<and> status_session (status st') = None \<and> activity rs' = None)"
proof -
  have a: "\<exists>n s. fst (process stranger_things 1000 1001 ''k3x'' None (initial, rpc_ready)) = Success n s"
    by (simp add: watching_run)
  from watchdog_timeout [OF watching_run, of 60999 None]
  have b: "watchdog_fire 60999 None watching = None" by simp
  from watchdog_timeout [OF watching_run, of 61000 None] watching_connection
  have c: "\<exists>st' rs'. watchdog_fire 61000 None watching = Some (st', rs')
         \<and> \<not> active (status st') \<and> status_session (status st') = None \<and> activity rs' = None"
    by auto
  show ?thesis using a b c by blast
qed

subsection \<open>Watch time\<close>

text \<open>
  Claim C6. When an accepted sample is applied to the session of the same title, the
  watched time grows only if the sample is playing, and then by the time since the last
  propagated update in seconds, capped at the threshold: \<open>min (elapsed, 5)\<close>.
\<close>

theorem watch_time_accrual:
  assumes "reachable (st, rs)" and "validate d" and "should_update (normalize d now) now st"
    and "session st = Some s" and "session_title s = title (normalize d now)"
  shows "\<exists>s'. session (fst (snd (process d now later rnd sent (st, rs)))) = Some s'
     \<and> watched s' = watched s +
          (if playing (normalize d now) then min (of_int (now - lastUpdate st) / 1000) 5 else 0)"
proof -
  from reachable_session [OF assms(1)] assms(4)
  obtain c where c: "now_playing st = Some c"
    by (auto simp: playing_with_session_def)
  from process_accept [OF assms(2,3), of later sent rs rnd]
  have "session (fst (snd (process d now later rnd sent (st, rs)))) =
      session (update_session (normalize d now) now rnd (st\<lparr>misses := misses st + 1\<rparr>))"
    by (auto simp: reset_timeout_def)
  then show ?thesis using c assms(4,5)
    by (simp add: update_session_def track_def Let_def threshold_def)
qed

theorem watch_time_accrual_witness:
  "reachable (snd (process stranger_things 1000 1001 ''k3x'' None (initial, rpc_initial)))
   \<and> validate stranger_seek
   \<and> (\<exists>s'. session (fst (snd (process stranger_seek 11000 11001 ''q7a'' None
                (snd (process stranger_things 1000 1001 ''k3x'' None (initial, rpc_initial)))))) = Some s'
          \<and> watched s' = 5)"
proof -
  let ?n = "normalize stranger_things 1000"
  let ?m = "normalize stranger_seek 11000"
  let ?s = "\<lparr>session_id = (1000, ''k3x''), session_title = title ?n, started = 1000,
            updated = 1000, session_duration = duration ?n, watched = 0, pauses = 0, seeks = 0\<rparr>"
  obtain res st1 rs1 where
    p: "process stranger_things 1000 1001 ''k3x'' None (initial, rpc_initial) = (res, st1, rs1)"
    by (cases "process stranger_things 1000 1001 ''k3x'' None (initial, rpc_initial)") blast
  have r: "reachable (st1, rs1)"
    using by_process [OF at_start, of stranger_things 1000 1001 "''k3x''" None] p by simp
  from process_accept [OF validate_stranger_things first_sample, of 1000 1001 None rpc_initial "''k3x''"] p
  have st1: "now_playing st1 = Some ?n" "lastUpdate st1 = 1000" "session st1 = Some ?s"
    by (auto simp: reset_timeout_def update_session_def create_session_def initial_def)
  have cur: "current ?n = Fin 0" "current ?m = Fin 120" "title ?m = title ?n" "playing ?m"
    by (simp_all add: normalize_def sanitize_def stranger_things_def stranger_seek_def Let_def jmax_def)
  have u: "should_update ?m 11000 st1"
    using st1 cur by (simp add: should_update_def jsub_def jgt_def threshold_def)
  have t: "session_title ?s = title ?m" using cur by simp
  from watch_time_accrual [OF r validate_stranger_seek u st1(3) t, of 11001 "''q7a''" None]
  show ?thesis using r p st1(2) cur(4) validate_stranger_seek by simp
qed

subsection \<open>Rendering\<close>

text \<open>
  Claim C7. On a ready connection the sample "Stranger Things: S04E09 - The Piggyback" at
  position 0 of 3000, playing, is sent as an activity with details "Stranger Things", state
  "S04E09 - The Piggyback", a start timestamp of now (in seconds) and an end timestamp 3000
  later; the sample "Inception" at 500 of 7200, not playing, is sent with details
  "Inception", no state and no timestamps. A rendered activity has timestamps exactly when
  the sample is playing and its duration is positive.
\<close>

theorem rendering:
  assumes "client rs \<noteq> None" and "connected rs" and "ready rs"
  shows "sink (snd (update (normalize stranger_things t) now later sent rs)) =
       sink rs @ [SetActivity
         \<lparr>details = ''Stranger Things'', state = Some ''S04E09 - The Piggyback'',
          largeImageKey = ''netflix_logo'', largeImageText = ''Netflix'', activity_type = 3,
          is_instance = False, startTimestamp = Some (now div 1000),
          endTimestamp = Some (now div 1000 + 3000)\<rparr>]
     \<and> sink (snd (update (normalize inception t) now later sent rs)) =
       sink rs @ [SetActivity
         \<lparr>details = ''Inception'', state = None,
          largeImageKey = ''netflix_logo'', largeImageText = ''Netflix'', activity_type = 3,
          is_instance = False, startTimestamp = None, endTimestamp = None\<rparr>]
     \<and> (startTimestamp (render d now) \<noteq> None \<longleftrightarrow> 0 < seconds (duration d) \<and> playing d)
     \<and> (endTimestamp (render d now) \<noteq> None \<longleftrightarrow> 0 < seconds (duration d) \<and> playing d)"
proof -
  have v: "validate_data (normalize stranger_things t)" "validate_data (normalize inception t)"
    by (simp_all add: validate_data_def normalize_stranger_things normalize_inception jle_def)
  have a: "sink (snd (update (normalize stranger_things t) now later sent rs)) =
       sink rs @ [SetActivity (render (normalize stranger_things t) now)]"
    by (rule update_sends [OF assms v(1)])
  have b: "sink (snd (update (normalize inception t) now later sent rs)) =
       sink rs @ [SetActivity (render (normalize inception t) now)]"
    by (rule update_sends [OF assms v(2)])
  have c: "(startTimestamp (render d now) \<noteq> None \<longleftrightarrow> 0 < seconds (duration d) \<and> playing d)
     \<and> (endTimestamp (render d now) \<noteq> None \<longleftrightarrow> 0 < seconds (duration d) \<and> playing d)"
    using format_activity_no_timestamps [of d] by (simp add: render_def Let_def)
  show ?thesis using a b c by (simp only: render_stranger_things render_inception)
qed

theorem rendering_witness:
  "client rpc_ready \<noteq> None \<and> connected rpc_ready \<and> ready rpc_ready
   \<and> sink (snd (update (normalize stranger_things 5000) 5000 5001 None rpc_ready)) =
       [Login (Some ''1472931378441228308''),
        SetActivity
         \<lparr>details = ''Stranger Things'', state = Some ''S04E09 - The Piggyback'',
          largeImageKey = ''netflix_logo'', largeImageText = ''Netflix'', activity_type = 3,
          is_instance = False, startTimestamp = Some 5, endTimestamp = Some 3005\<rparr>]"
proof -
  have h: "client rpc_ready \<noteq> None" "connected rpc_ready" "ready rpc_ready"
    by (simp_all add: rpc_ready_def rpc_initial_def)
  from rendering [OF h, of 5000 5000 5001 None "normalize inception 5000"]
  have "sink (snd (update (normalize stranger_things 5000) 5000 5001 None rpc_ready)) =
       sink rpc_ready @ [SetActivity
         \<lparr>details = ''Stranger Things'', state = Some ''S04E09 - The Piggyback'',
          largeImageKey = ''netflix_logo'', largeImageText = ''Netflix'', activity_type = 3,
          is_instance = False, startTimestamp = Some (5000 div 1000),
          endTimestamp = Some (5000 div 1000 + 3000)\<rparr>]" by blast
  then show ?thesis using h by (simp add: rpc_ready_def rpc_initial_def)
qed

subsection \<open>Reconnect attempts\<close>

lemma retries_state:
  "attempts (retries n) = 1 \<and> \<not> connected (retries n) \<and> client (retries n) \<noteq> None
   \<and> client_id (retries n) = Some ''1472931378441228308''
   \<and> timers (retries n) = [5000 * (int n + 1)]
   \<and> count_list (sink (retries n)) (Login (Some ''1472931378441228308'')) = n + 1
   \<and> count_list (sink (retries n)) Destroy = n"
proof (induction n)
  case 0
  show ?case
    by (simp add: connect_def create_def schedule_reconnect_def rpc_initial_def rpc_reconnect_def
          rpc_retry_def Let_def)
next
  case (Suc n)
  then show ?case
    by (simp add: reconnect_fire_def reconnect_def connect_def create_def destroy_def
          disconnect_def schedule_reconnect_def rpc_reconnect_def rpc_retry_def Let_def)
qed

lemma retries_reachable: "reachable (initial, retries n)"
proof (induction n)
  case 0
  show ?case unfolding retries.simps by (rule by_connect [OF at_start])
next
  case (Suc n)
  show ?case
  proof (cases "reconnect_fire (5000 * int (Suc n)) (Some ''refused'') (5000 * int (Suc n)) (retries n)")
    case None
    then show ?thesis using Suc by simp
  next
    case (Some r)
    obtain b rs where r: "r = (b, rs)" by (cases r)
    from by_reconnect [OF Suc Some [unfolded r]] Some r show ?thesis by simp
  qed
qed

text \<open>
  Claim C8. The claim bounds the automatic reconnects by three attempts, after which the
  connection stays down. The code does not reach that bound: every reconnect goes through
  \<open>connect\<close> and \<open>create\<close>, which destroys the old client and sets the attempt counter
  back to 0, so the counter is 1 after every refused login. In the run where every login is
  refused, after any number of logins the state is one a run reaches, the counter is 1, the
  connection is down, the next reconnect is pending 5000 ms ahead, and when it fires it
  logs in again.
\<close>

theorem reconnect_never_ceases:
  "reachable (initial, retries n)
   \<and> count_list (sink (retries n)) (Login (Some ''1472931378441228308'')) = n + 1
   \<and> attempts (retries n) = 1
   \<and> \<not> connected (retries n)
   \<and> timers (retries n) = [5000 * (int n + 1)]
   \<and> reconnect_fire (5000 * (int n + 1)) (Some ''refused'') (5000 * (int n + 1)) (retries n) =
       Some (False, retries (Suc n))"
proof -
  have f: "reconnect_fire (5000 * (int n + 1)) (Some ''refused'') (5000 * (int n + 1)) (retries n) =
       Some (False, retries (Suc n))"
    using retries_state [of n]
    by (simp add: reconnect_fire_def reconnect_def connect_def Let_def add.commute)
  show ?thesis using retries_reachable [of n] retries_state [of n] f by blast
qed

subsection \<open>Replay on reconnect\<close>

text \<open>
  Claim C9. \<open>handle_ready\<close> resets the attempt counter and restores a cached activity,
  but a cached activity does not survive the \<open>connect\<close> that precedes it: \<open>connect\<close>
  builds its client with \<open>create\<close>, which destroys the old client and with it the cached
  activity. After the connection of \<open>watching\<close> has dropped, and likewise on a connection
  whose attempts are used up, a call of \<open>connect\<close> followed by \<open>ready\<close> resets the
  counter and sends nothing to the new client.
\<close>

theorem reconnect_forgets_activity:
  "reachable (fst watching, dropped) \<and> activity dropped \<noteq> None
   \<and> activity (snd (connect (Some ''1472931378441228308'') None 40000 dropped)) = None
   \<and> sink (handle_ready 40010 40011 None (snd (connect (Some ''1472931378441228308'') None 40000 dropped))) =
       sink dropped @ [Destroy, Login (Some ''1472931378441228308'')]
   \<and> attempts exhausted = 3 \<and> activity exhausted \<noteq> None
   \<and> attempts (snd (connect (Some ''1472931378441228308'') None 40000 exhausted)) = 0
   \<and> sink (handle_ready 40010 40011 None (snd (connect (Some ''1472931378441228308'') None 40000 exhausted))) =
       [Destroy, Login (Some ''1472931378441228308'')]"
proof -
  have w: "reachable (fst watching, snd watching)" using reachable_watching by simp
  have r: "reachable (fst watching, dropped)"
    unfolding dropped_def by (rule by_disconnected [OF w watching_connection(1)])
  have e: "client exhausted \<noteq> None" "\<not> connected exhausted" "attempts exhausted = 3"
    "activity exhausted \<noteq> None" "sink exhausted = []"
    by (simp_all add: exhausted_def rpc_initial_def)
  show ?thesis
    using r dropped_state(3) connect_forgets [OF dropped_state(1,2)] e(3,4,5)
      connect_forgets [OF e(1,2)]
    by simp
qed

subsection \<open>Samples without a connection\<close>

text \<open>
  Claim C10. A sample that is accepted while the connection is not connected or not ready
  still gets \<open>{success: true, data, session}\<close>: \<open>rpc.update\<close> answers \<open>false\<close> and sends
  nothing, \<open>process\<close> does not read that answer, and neither \<open>update\<close> nor \<open>process\<close>
  can end in the error branch, whatever the connection and the client do.
\<close>

theorem process_without_connection:
  assumes "validate d" and "should_update (normalize d now) now st"
    and "\<not> (connected rs \<and> ready rs)"
  shows "update (normalize d now) now later sent rs = (Inr False, rs\<lparr>calls := calls rs @ [CallUpdate]\<rparr>)
     \<and> (\<exists>st'. process d now later rnd sent (st, rs) =
           (Success (normalize d now) (session st'), st', rs\<lparr>calls := calls rs @ [CallUpdate]\<rparr>))
     \<and> (\<forall>sent' rs' e. fst (update (normalize d now) now later sent' rs') \<noteq> Inl e
           \<and> fst (process d now later rnd sent' (st, rs')) \<noteq> Failure e)"
proof -
  have u: "update (normalize d now) now later sent rs = (Inr False, rs\<lparr>calls := calls rs @ [CallUpdate]\<rparr>)"
    using assms(3) by (auto simp: update_def is_connected_def Let_def)
  have p: "\<exists>st'. process d now later rnd sent (st, rs) =
           (Success (normalize d now) (session st'), st', rs\<lparr>calls := calls rs @ [CallUpdate]\<rparr>)"
    using process_accept [OF assms(1,2), of later sent rs rnd] u
    by (simp add: reset_timeout_def)
  have n: "fst (update (normalize d now) now later sent' rs') \<noteq> Inl e
           \<and> fst (process d now later rnd sent' (st, rs')) \<noteq> Failure e" for sent' rs' e
    using process_accept [OF assms(1,2), of later sent' rs' rnd] by auto
  show ?thesis using u p n by blast
qed

theorem process_without_connection_witness:
  "validate inception \<and> should_update (normalize inception 1000) 1000 initial
   \<and> \<not> (connected rpc_initial \<and> ready rpc_initial)
   \<and> fst (process inception 1000 1001 ''k3x'' None (initial, rpc_initial)) =
       Success (normalize inception 1000)
         (Some \<lparr>session_id = (1000, ''k3x''), session_title = ''Inception'', started = 1000,
            updated = 1000, session_duration = Fin 7200, watched = 0, pauses = 0, seeks = 0\<rparr>)"
proof -
  have v: "validate inception"
    by (simp add: validate_def inception_def minDuration_def)
  have s: "should_update (normalize inception 1000) 1000 initial"
    by (simp add: should_update_def initial_def)
  have c: "\<not> (connected rpc_initial \<and> ready rpc_initial)"
    by (simp add: rpc_initial_def)
  have t: "title (normalize inception 1000) = ''Inception''"
    "duration (normalize inception 1000) = Fin 7200"
    by (simp_all add: normalize_def sanitize_def inception_def Let_def maxTitle_def jmax_def)
  from process_without_connection [OF v s c, of 1001 None "''k3x''"]
  obtain st' where "process inception 1000 1001 ''k3x'' None (initial, rpc_initial) =
     (Success (normalize inception 1000) (session st'), st',
      rpc_initial\<lparr>calls := calls rpc_initial @ [CallUpdate]\<rparr>)" by blast
  moreover have "session (fst (snd (process inception 1000 1001 ''k3x'' None (initial, rpc_initial)))) =
      Some \<lparr>session_id = (1000, ''k3x''), session_title = ''Inception'', started = 1000,
            updated = 1000, session_duration = Fin 7200, watched = 0, pauses = 0, seeks = 0\<rparr>"
    using process_accept [OF v s, of 1001 None rpc_initial "''k3x''"] t
    by (auto simp: reset_timeout_def update_session_def create_session_def initial_def)
  ultimately show ?thesis using v s c by simp
qed

subsection \<open>Further properties of the client module\<close>

text \<open>
  In a run of the two modules the attempt counter never exceeds 1: every \<open>connect\<close> that
  finds an old client destroys it and with it the counter. A failed login therefore always
  leaves the counter at 1 and schedules the next reconnect.
\<close>

theorem failed_login_always_retries:
  assumes "reachable (st, rs)" and "\<not> connected rs"
  shows "attempts rs \<le> 1
     \<and> attempts (snd (connect i (Some err) now rs)) = 1
     \<and> timers (snd (connect i (Some err) now rs)) = timers rs @ [now + 5000]"
proof -
  from reachable_client [OF assms(1)] have k: "client_kept rs" by simp
  then show ?thesis using assms(2)
    by (auto simp: client_kept_def connect_def create_def destroy_def disconnect_def
          schedule_reconnect_def rpc_reconnect_def rpc_retry_def Let_def)
qed

theorem failed_login_always_retries_witness:
  "reachable (fst watching, dropped) \<and> \<not> connected dropped
   \<and> attempts (snd (connect (Some ''1472931378441228308'') (Some ''refused'') 40000 dropped)) = 1
   \<and> timers (snd (connect (Some ''1472931378441228308'') (Some ''refused'') 40000 dropped)) =
       timers dropped @ [45000]"
proof -
  have w: "reachable (fst watching, snd watching)" using reachable_watching by simp
  have r: "reachable (fst watching, dropped)"
    unfolding dropped_def by (rule by_disconnected [OF w watching_connection(1)])
  from failed_login_always_retries [OF r dropped_state(2),
      of "Some ''1472931378441228308''" "''refused''" 40000]
  show ?thesis using r dropped_state(2) by simp
qed

text \<open>
  In a run of the two modules no activity is cached once \<open>connect\<close> has gone past its
  test of \<open>connected\<close>, whatever the login does, and a \<open>ready\<close> that follows sends nothing.
\<close>

theorem no_replay_after_connect:
  assumes "reachable (st, rs)" and "\<not> connected rs"
  shows "activity (snd (connect i login now rs)) = None
     \<and> sink (handle_ready t t' sent (snd (connect i login now rs))) = sink (snd (connect i login now rs))"
proof -
  from reachable_client [OF assms(1)] have k: "client_kept rs" by simp
  then show ?thesis using assms(2)
    by (cases login)
       (auto simp: client_kept_def connect_def create_def destroy_def disconnect_def
          schedule_reconnect_def handle_ready_def Let_def)
qed

theorem no_replay_after_connect_witness:
  "reachable (fst watching, dropped) \<and> \<not> connected dropped \<and> activity dropped \<noteq> None
   \<and> activity (snd (connect (Some ''1472931378441228308'') None 40000 dropped)) = None"
proof -
  have w: "reachable (fst watching, snd watching)" using reachable_watching by simp
  have r: "reachable (fst watching, dropped)"
    unfolding dropped_def by (rule by_disconnected [OF w watching_connection(1)])
  from no_replay_after_connect [OF r dropped_state(2),
      of "Some ''1472931378441228308''" None 40000 40010 40011 None]
  show ?thesis using r dropped_state(2,3) by simp
qed

text \<open>
  A title "Series: S01E01" with no episode name is taken by the season pattern, the last
  digit of the episode number as the name; the pattern written for titles without a name
  is reached only when the episode number has a single digit.
\<close>

theorem season_pattern_splits_episode:
  "parse_title ''Dark: S01E01'' =
     Some \<lparr>series = ''Dark'', season = Some ''01'', episode = ''0'', name = Some ''1'',
           format = Season\<rparr>
   \<and> parse_title ''Dark: S01E1'' =
     Some \<lparr>series = ''Dark'', season = Some ''01'', episode = ''1'', name = None,
           format = Season\<rparr>"
  by code_simp

end
